theory Spec2Isabelle
  imports Main
begin

section \<open>Python values\<close>

text \<open>
  A Python \<open>str\<close> is a sequence of Unicode code points; a character is modelled by its
  code point, so that \<open>split\<close>, \<open>strip\<close>, \<open>in\<close> and \<open>==\<close> count what Python counts.
  ASCII literals of the source are written through \<open>asc\<close>, the others as code points.
\<close>

type_synonym ustr = "nat list"

definition asc :: "string \<Rightarrow> ustr" where
  "asc s = map of_char s"

text \<open>The exceptions that reach the model; \<open>OtherError\<close> carries a library's own.\<close>

datatype py_error = TypeError | AttributeError | OtherError ustr

text \<open>
  What \<open>response.json()\<close> can return: \<open>None\<close>, a bool, a number, a \<open>str\<close>, a list or a
  dict (its items in insertion order). Python's int and float are not told apart: the
  program treats both alike (neither can be iterated).
\<close>

datatype json =
    JNull
  | JBool bool
  | JNum int
  | JStr ustr
  | JArr "json list"
  | JObj "(ustr \<times> json) list"

text \<open>
  \<open>for text in strings\<close>: a list gives its elements, a \<open>str\<close> its characters as
  one-character strings, a dict its keys; anything else raises \<open>TypeError\<close>.
\<close>

fun py_iter :: "json \<Rightarrow> py_error + json list" where
  "py_iter (JArr xs) = Inr xs"
| "py_iter (JStr s) = Inr (map (\<lambda>c. JStr [c]) s)"
| "py_iter (JObj kvs) = Inr (map (\<lambda>kv. JStr (fst kv)) kvs)"
| "py_iter JNull = Inl TypeError"
| "py_iter (JBool b) = Inl TypeError"
| "py_iter (JNum n) = Inl TypeError"

subsection \<open>String operations of the Python library\<close>

text \<open>
  \<open>s.split(sep)\<close> for a one-character separator: the pieces between the occurrences of
  \<open>sep\<close>, empty pieces included, so the result has one more element than \<open>s\<close> has
  separators and is never empty (\<open>"".split("\t") == [""]\<close>).
\<close>

fun split_on :: "nat \<Rightarrow> ustr \<Rightarrow> ustr list" where
  "split_on sep [] = [[]]"
| "split_on sep (c # cs) =
     (if c = sep then [] # split_on sep cs
      else (case split_on sep cs of
              [] \<Rightarrow> [[c]]
            | p # ps \<Rightarrow> (c # p) # ps))"

text \<open>\<open>sep.join(words)\<close>.\<close>

fun join :: "ustr \<Rightarrow> ustr list \<Rightarrow> ustr" where
  "join sep [] = []"
| "join sep [w] = w"
| "join sep (w # v # ws) = w @ sep @ join sep (v # ws)"

text \<open>
  \<open>s.strip()\<close> removes leading and trailing whitespace, which for a \<open>str\<close> is every
  code point for which \<open>str.isspace\<close> holds.
\<close>

definition is_space :: "nat \<Rightarrow> bool" where
  "is_space c \<longleftrightarrow>
     (0x9 \<le> c \<and> c \<le> 0xD) \<or> (0x1C \<le> c \<and> c \<le> 0x20) \<or> c = 0x85 \<or> c = 0xA0 \<or>
     c = 0x1680 \<or> (0x2000 \<le> c \<and> c \<le> 0x200A) \<or> c = 0x2028 \<or> c = 0x2029 \<or>
     c = 0x202F \<or> c = 0x205F \<or> c = 0x3000"

definition strip :: "ustr \<Rightarrow> ustr" where
  "strip s = rev (dropWhile is_space (rev (dropWhile is_space s)))"

section \<open>The morphological filter: \<open>analyze_strings\<close>\<close>

definition newline :: nat where "newline = 0xA"
definition tab :: nat where "tab = 0x9"
definition hyphen :: nat where "hyphen = 0x2D"
definition space :: nat where "space = 0x20"

definition EOS :: ustr where "EOS = asc ''EOS''"

text \<open>The three part-of-speech labels: noun, verb, adjective.\<close>

definition meishi :: ustr where "meishi = [0x540D, 0x8A5E]"
definition doushi :: ustr where "doushi = [0x52D5, 0x8A5E]"
definition keiyoushi :: ustr where "keiyoushi = [0x5F62, 0x5BB9, 0x8A5E]"

text \<open>
  \<open>pos_info.split("-")[0] if "-" in pos_info else pos_info\<close>. The index is in range:
  \<open>split\<close> never returns the empty list.
\<close>

definition pos_of :: "ustr \<Rightarrow> ustr" where
  "pos_of pos_info =
     (if hyphen \<in> set pos_info then split_on hyphen pos_info ! 0 else pos_info)"

text \<open>
  The body of the inner loop, from the list of words so far to the list after the line.
  \<open>parts[0]\<close> and \<open>parts[4]\<close> are read only behind the check \<open>len(parts) < 5\<close>.
\<close>

definition analyze_line :: "ustr list \<Rightarrow> ustr \<Rightarrow> ustr list" where
  "analyze_line result_words line =
     (if line = EOS \<or> line = [] then result_words
      else
        let parts = split_on tab line in
        if length parts < 5 then result_words
        else
          let word = parts ! 0;
              pos_info = parts ! 4;
              pos = pos_of pos_info
          in if pos \<in> set [meishi, doushi, keiyoushi]
             then result_words @ [word]
             else result_words)"

text \<open>\<open>for line in lines\<close>.\<close>

fun analyze_lines :: "ustr list \<Rightarrow> ustr list \<Rightarrow> ustr list" where
  "analyze_lines result_words [] = result_words"
| "analyze_lines result_words (line # lines) =
     analyze_lines (analyze_line result_words line) lines"

text \<open>
  \<open>for text in strings\<close>. The analyzer \<open>t.parse\<close> is a library: it is the parameter
  \<open>tparse\<close>, a fixed function from the argument to the text it returns or the exception
  it raises (a result that is no \<open>str\<close> makes \<open>parsed.split\<close> raise, and is an error here).
\<close>

fun analyze_texts ::
  "(json \<Rightarrow> py_error + ustr) \<Rightarrow> ustr list \<Rightarrow> json list \<Rightarrow> py_error + ustr list" where
  "analyze_texts tparse result_words [] = Inr result_words"
| "analyze_texts tparse result_words (text # texts) =
     (case tparse text of
        Inl e \<Rightarrow> Inl e
      | Inr parsed \<Rightarrow>
          analyze_texts tparse (analyze_lines result_words (split_on newline parsed)) texts)"

definition analyze_strings ::
  "(json \<Rightarrow> py_error + ustr) \<Rightarrow> json \<Rightarrow> py_error + ustr list" where
  "analyze_strings tparse strings =
     (case py_iter strings of
        Inl e \<Rightarrow> Inl e
      | Inr texts \<Rightarrow> analyze_texts tparse [] texts)"

section \<open>The environment and the observable state\<close>

text \<open>The keyword arguments of \<open>WordCloud(...)\<close>.\<close>

record wc_config =
  width :: nat
  height :: nat
  background_color :: ustr
  max_words :: nat
  font_path :: ustr
  colormap :: ustr

text \<open>
  What \<open>plt.savefig\<close> writes: the figure as the \<open>plt\<close> calls before it set it up, and
  the arguments of \<open>savefig\<close> itself.
\<close>

record 'img saved_figure =
  figsize :: "nat \<times> nat"
  shown_image :: 'img
  interpolation :: ustr
  axis_on :: bool
  layout_pad :: nat
  dpi :: nat
  bbox_inches :: ustr

text \<open>
  The state the program acts on: the lines printed, the calls made to the word-cloud
  renderer (configuration and text, in order), the image files by path, and the figures
  displayed.
\<close>

record 'img world =
  stdout :: "ustr list"
  renders :: "(wc_config \<times> ustr) list"
  files :: "ustr \<rightharpoonup> 'img saved_figure"
  displayed :: "'img list"

text \<open>An HTTP response: its status code and what \<open>response.json()\<close> returns or raises.\<close>

record response =
  status_code :: int
  json_result :: "py_error + json"

text \<open>
  The libraries and the network are parameters: \<open>requests.get\<close>, \<open>t.parse\<close>,
  \<open>WordCloud(...).generate\<close> (it returns the layout or raises, as for a missing font),
  and whether \<open>plt.savefig\<close> raises for a path. The other \<open>plt\<close> calls only set the
  figure up or display it and are taken to return.
\<close>

record 'img env =
  requests_get :: "ustr \<Rightarrow> py_error + response"
  tparse :: "json \<Rightarrow> py_error + ustr"
  wc_generate :: "wc_config \<Rightarrow> ustr \<Rightarrow> py_error + 'img"
  plt_savefig :: "ustr \<Rightarrow> py_error option"

section \<open>Rendering: \<open>generate_wordcloud\<close>\<close>

definition no_words_msg :: ustr where
  "no_words_msg =
     [0x62BD, 0x51FA, 0x3055, 0x308C, 0x305F, 0x5358, 0x8A9E, 0x304C, 0x3042, 0x308A,
      0x307E, 0x305B, 0x3093]"

definition saved_msg :: "ustr \<Rightarrow> ustr" where
  "saved_msg output_path =
     [0x30EF, 0x30FC, 0x30C9, 0x30AF, 0x30E9, 0x30A6, 0x30C9, 0x3092, 0x20] @ output_path @
     [0x20, 0x306B, 0x4FDD, 0x5B58, 0x3057, 0x307E, 0x3057, 0x305F]"

definition wordcloud_config :: wc_config where
  "wordcloud_config =
     \<lparr>width = 1920, height = 1080, background_color = asc ''white'', max_words = 100,
      font_path = asc ''./fonts/NotoSansJP-Regular.ttf'', colormap = asc ''viridis''\<rparr>"

definition generate_wordcloud ::
  "'img env \<Rightarrow> json \<Rightarrow> ustr \<Rightarrow> 'img world \<Rightarrow> 'img world \<times> (py_error + unit)" where
  "generate_wordcloud env strings output_path w =
     (case analyze_strings (tparse env) strings of
        Inl e \<Rightarrow> (w, Inl e)
      | Inr words \<Rightarrow>
          let text = join [space] words in
          if strip text = [] then (w\<lparr>stdout := stdout w @ [no_words_msg]\<rparr>, Inr ())
          else
            let w1 = w\<lparr>renders := renders w @ [(wordcloud_config, text)]\<rparr> in
            (case wc_generate env wordcloud_config text of
               Inl e \<Rightarrow> (w1, Inl e)
             | Inr wordcloud \<Rightarrow>
                 (case plt_savefig env output_path of
                    Some e \<Rightarrow> (w1, Inl e)
                  | None \<Rightarrow>
                      (w1\<lparr>files := (files w1)(output_path \<mapsto>
                             \<lparr>figsize = (10, 5), shown_image = wordcloud,
                              interpolation = asc ''bilinear'', axis_on = False,
                              layout_pad = 0, dpi = 300, bbox_inches = asc ''tight''\<rparr>),
                          displayed := displayed w1 @ [wordcloud],
                          stdout := stdout w1 @ [saved_msg output_path]\<rparr>,
                       Inr ()))))"

section \<open>Fetching: \<open>fetch_texts\<close> and the script\<close>

definition fetch_texts ::
  "'img env \<Rightarrow> ustr \<Rightarrow> 'img world \<Rightarrow> 'img world \<times> (py_error + json)" where
  "fetch_texts env url w =
     (case requests_get env url of
        Inl e \<Rightarrow> (w, Inl e)
      | Inr response \<Rightarrow>
          if status_code response = 200 then (w, json_result response)
          else (w\<lparr>stdout := stdout w @ [asc ''Failed to fetch data from '' @ url]\<rparr>,
                Inr (JArr [])))"

definition main_url :: ustr where
  "main_url = asc ''https://nostr-worker-relay.akazdayo.workers.dev/get-event''"

definition main :: "'img env \<Rightarrow> 'img world \<Rightarrow> 'img world \<times> (py_error + unit)" where
  "main env w =
     (case fetch_texts env main_url w of
        (w', Inl e) \<Rightarrow> (w', Inl e)
      | (w', Inr texts) \<Rightarrow> generate_wordcloud env texts (asc ''wordcloud.png'') w')"

section \<open>Concrete inputs\<close>

text \<open>
  The example of the specification: the input text (cat, subject particle, to run) and
  the verb it keeps.
\<close>

definition neko_ga_hashiru :: ustr where
  "neko_ga_hashiru = [0x732B, 0x304C, 0x8D70, 0x308B]"

definition hashiru :: ustr where
  "hashiru = [0x8D70, 0x308B]"

definition neko :: ustr where
  "neko = [0x732B]"

text \<open>
  An analyzer output for it in the layout of the dictionary the source names: surface,
  two readings, lemma, part of speech. A line of two fields is added to it, then the
  end marker; the final newline leaves an empty last line.
\<close>

definition ex_line_neko :: ustr where
  "ex_line_neko =
     neko @ [tab] @ asc ''neko'' @ [tab] @ asc ''neko'' @ [tab] @ neko @ [tab] @ meishi @
     [hyphen, 0x666E, 0x901A, 0x540D, 0x8A5E, hyphen, 0x4E00, 0x822C, tab, tab, tab] @
     asc ''1''"

definition ex_line_ga :: ustr where
  "ex_line_ga =
     [0x304C, tab] @ asc ''ga'' @ [tab] @ asc ''ga'' @
     [tab, 0x304C, tab, 0x52A9, 0x8A5E, hyphen, 0x683C, 0x52A9, 0x8A5E, tab, tab, tab]"

definition ex_line_short :: ustr where
  "ex_line_short = hashiru @ [tab] @ doushi"

definition ex_line_hashiru :: ustr where
  "ex_line_hashiru =
     hashiru @ [tab] @ asc ''hashiru'' @ [tab] @ asc ''hashiru'' @ [tab] @ hashiru @ [tab] @
     doushi @ [hyphen, 0x4E00, 0x822C, tab] @ asc ''godan'' @ [tab] @ asc ''shuushi'' @
     [tab] @ asc ''2''"

definition ex_parsed :: ustr where
  "ex_parsed =
     ex_line_neko @ [newline] @ ex_line_ga @ [newline] @ ex_line_short @ [newline] @
     ex_line_hashiru @ [newline] @ EOS @ [newline]"

text \<open>
  An analyzer that knows this one text, returns the bare end marker for any other string
  and raises for an argument that is no string.
\<close>

definition ex_tparse :: "json \<Rightarrow> py_error + ustr" where
  "ex_tparse x =
     (case x of
        JStr s \<Rightarrow> if s = neko_ga_hashiru then Inr ex_parsed else Inr (EOS @ [newline])
      | _ \<Rightarrow> Inl TypeError)"

text \<open>An analyzer whose only token is a noun whose surface is one space.\<close>

definition ex_line_blank :: ustr where
  "ex_line_blank = [space, tab] @ asc ''x'' @ [tab] @ asc ''x'' @ [tab, space, tab] @ meishi"

definition ex_tparse_blank :: "json \<Rightarrow> py_error + ustr" where
  "ex_tparse_blank x = Inr (ex_line_blank @ [newline] @ EOS @ [newline])"

text \<open>
  Responses and environments: a server that answers 200 with a list of one string, one
  that answers 404, one that answers 200 with a JSON object. The renderer of \<open>ex_env\<close>
  returns its text as the image.
\<close>

definition ex_obj :: json where
  "ex_obj = JObj [(asc ''error'', JStr (asc ''not found''))]"

definition ex_env :: "ustr env" where
  "ex_env =
     \<lparr>requests_get = (\<lambda>url. Inr \<lparr>status_code = 200,
                                   json_result = Inr (JArr [JStr neko_ga_hashiru])\<rparr>),
      tparse = ex_tparse,
      wc_generate = (\<lambda>cfg text. Inr text),
      plt_savefig = (\<lambda>path. None)\<rparr>"

definition ex_env_404 :: "ustr env" where
  "ex_env_404 =
     ex_env\<lparr>requests_get := (\<lambda>url. Inr \<lparr>status_code = 404,
                                          json_result = Inl (OtherError [])\<rparr>)\<rparr>"

definition ex_env_obj :: "ustr env" where
  "ex_env_obj =
     ex_env\<lparr>requests_get := (\<lambda>url. Inr \<lparr>status_code = 200, json_result = Inr ex_obj\<rparr>)\<rparr>"

definition ex_env_blank :: "ustr env" where
  "ex_env_blank = ex_env\<lparr>tparse := ex_tparse_blank\<rparr>"

definition ex_world :: "ustr world" where
  "ex_world = \<lparr>stdout = [], renders = [], files = Map.empty, displayed = []\<rparr>"

text \<open>Whether a JSON value is a list of strings, the shape the program expects.\<close>

fun is_str_list :: "json \<Rightarrow> bool" where
  "is_str_list (JArr xs) = list_all (\<lambda>x. case x of JStr s \<Rightarrow> True | _ \<Rightarrow> False) xs"
| "is_str_list _ = False"

section \<open>Facts about the string operations\<close>

lemma split_on_not_Nil: "split_on sep s \<noteq> []"
  by (induction s) (auto split: list.splits)

lemma pos_of_first_segment: "pos_of s = split_on hyphen s ! 0"
  unfolding pos_of_def
  by (induction s) (auto split: list.splits simp: split_on_not_Nil)

lemma split_on_tab_EOS: "split_on tab EOS = [EOS]"
  by (simp add: EOS_def asc_def tab_def)

lemma strip_empty_iff: "strip s = [] \<longleftrightarrow> (\<forall>c\<in>set s. is_space c)"
proof
  assume "strip s = []"
  then have rest: "\<forall>c\<in>set (dropWhile is_space s). is_space c"
    by (simp add: strip_def)
  show "\<forall>c\<in>set s. is_space c"
  proof (cases "dropWhile is_space s")
    case Nil
    then show ?thesis by simp
  next
    case (Cons c cs)
    then have "\<not> is_space c"
      using hd_dropWhile[of is_space s] by simp
    moreover have "c \<in> set (dropWhile is_space s)"
      using Cons by simp
    ultimately show ?thesis
      using rest by blast
  qed
next
  assume "\<forall>c\<in>set s. is_space c"
  then have d: "dropWhile is_space s = []"
    by simp
  show "strip s = []"
    unfolding strip_def d by simp
qed

section \<open>The filter as a map over the retained lines\<close>

lemma analyze_line_eq:
  "analyze_line rw l =
     rw @ (if l \<noteq> EOS \<and> l \<noteq> [] \<and> 5 \<le> length (split_on tab l) \<and>
              split_on hyphen (split_on tab l ! 4) ! 0 \<in> {meishi, doushi, keiyoushi}
           then [split_on tab l ! 0] else [])"
  by (simp add: analyze_line_def Let_def pos_of_first_segment)

lemma analyze_lines_eq:
  "analyze_lines rw ls =
     rw @ map (\<lambda>l. split_on tab l ! 0)
       (filter (\<lambda>l. l \<noteq> EOS \<and> l \<noteq> [] \<and> 5 \<le> length (split_on tab l) \<and>
              split_on hyphen (split_on tab l ! 4) ! 0 \<in> {meishi, doushi, keiyoushi}) ls)"
proof (induction ls arbitrary: rw)
  case Nil
  show ?case by simp
next
  case (Cons l ls)
  show ?case
    by (simp only: analyze_lines.simps Cons.IH analyze_line_eq) simp
qed

lemma analyze_lines_acc: "analyze_lines rw ls = rw @ analyze_lines [] ls"
  using analyze_lines_eq[of rw ls] analyze_lines_eq[of "[]" ls] by simp

lemma analyze_line_short: "length (split_on tab l) < 5 \<Longrightarrow> analyze_line rw l = rw"
  by (simp add: analyze_line_def Let_def)

lemma analyze_lines_drop_short:
  "analyze_lines rw (filter (\<lambda>l. \<not> length (split_on tab l) < 5) ls) = analyze_lines rw ls"
  by (induction ls arbitrary: rw) (auto simp: analyze_line_short)

lemma analyze_texts_outputs:
  assumes "list_all2 (\<lambda>text parsed. tp text = Inr parsed) texts outputs"
  shows "analyze_texts tp rw texts =
           Inr (rw @ concat (map (\<lambda>parsed. analyze_lines [] (split_on newline parsed)) outputs))"
  using assms
proof (induction texts outputs arbitrary: rw rule: list_all2_induct)
  case Nil
  show ?case by simp
next
  case (Cons t ts out outs)
  have "analyze_lines rw (split_on newline out) = rw @ analyze_lines [] (split_on newline out)"
    by (rule analyze_lines_acc)
  with Cons show ?case by simp
qed

lemma analyze_texts_acc:
  "analyze_texts tp rw ts =
     (case analyze_texts tp [] ts of Inl e \<Rightarrow> Inl e | Inr a \<Rightarrow> Inr (rw @ a))"
proof (induction ts arbitrary: rw)
  case Nil
  show ?case by simp
next
  case (Cons t ts)
  show ?case
  proof (cases "tp t")
    case (Inl e)
    then show ?thesis by simp
  next
    case (Inr parsed)
    let ?a = "analyze_lines [] (split_on newline parsed)"
    have step: "analyze_lines rw (split_on newline parsed) = rw @ ?a"
      by (rule analyze_lines_acc)
    show ?thesis
      using Inr Cons[of "rw @ ?a"] Cons[of ?a]
      by (simp add: step split: sum.splits)
  qed
qed

lemma analyze_texts_append:
  "analyze_texts tp rw (xs @ ys) =
     (case analyze_texts tp rw xs of Inl e \<Rightarrow> Inl e | Inr a \<Rightarrow> analyze_texts tp a ys)"
  by (induction xs arbitrary: rw) (auto split: sum.splits)

text \<open>
  A line made of whitespace only is never retained, whatever its number of fields, so
  ``blank'' may be read as empty or as whitespace only in what follows.
\<close>

lemma split_on_chars: "p \<in> set (split_on sep s) \<Longrightarrow> set p \<subseteq> set s"
proof (induction s arbitrary: p)
  case Nil
  then show ?case by simp
next
  case (Cons c cs)
  show ?case
  proof (cases "c = sep")
    case True
    with Cons show ?thesis by auto
  next
    case False
    obtain q qs where q: "split_on sep cs = q # qs"
      using split_on_not_Nil[of sep cs] by (cases "split_on sep cs") auto
    with False Cons.prems have "p = c # q \<or> p \<in> set qs" by auto
    then show ?thesis
      using Cons.IH[of q] Cons.IH[of p] q by auto
  qed
qed

lemma whitespace_line_not_retained:
  assumes "\<forall>c\<in>set line. is_space c"
  shows "analyze_line rw line = rw"
proof (cases "5 \<le> length (split_on tab line)")
  case False
  then show ?thesis by (simp add: analyze_line_short)
next
  case True
  let ?f = "split_on tab line ! 4"
  have "?f \<in> set (split_on tab line)"
    using True by simp
  then have f: "\<forall>c\<in>set ?f. is_space c"
    using split_on_chars[of ?f tab line] assms by blast
  have "split_on hyphen ?f ! 0 \<in> set (split_on hyphen ?f)"
    using split_on_not_Nil[of hyphen ?f] by simp
  then have "\<forall>c\<in>set (split_on hyphen ?f ! 0). is_space c"
    using split_on_chars[of _ hyphen ?f] f by blast
  moreover have "\<not> is_space 0x8A5E"
    by (simp add: is_space_def)
  ultimately have "split_on hyphen ?f ! 0 \<notin> {meishi, doushi, keiyoushi}"
    by (auto simp: meishi_def doushi_def keiyoushi_def)
  then show ?thesis
    by (simp add: analyze_line_eq)
qed

section \<open>Facts about rendering and fetching\<close>

lemma generate_wordcloud_skip:
  assumes "analyze_strings (tparse env) strings = Inr words"
    and "strip (join [space] words) = []"
  shows "generate_wordcloud env strings output_path w =
           (w\<lparr>stdout := stdout w @ [no_words_msg]\<rparr>, Inr ())"
  using assms by (simp add: generate_wordcloud_def)

lemma fetch_texts_200:
  assumes "requests_get env url = Inr response"
    and "status_code response = 200"
  shows "fetch_texts env url w = (w, json_result response)"
  using assms by (simp add: fetch_texts_def)

section \<open>The concrete inputs, evaluated\<close>

lemma ex_parsed_lines:
  "split_on newline ex_parsed =
     [ex_line_neko, ex_line_ga, ex_line_short, ex_line_hashiru, EOS, []]"
  by (simp add: ex_parsed_def ex_line_neko_def ex_line_ga_def ex_line_short_def
        ex_line_hashiru_def EOS_def asc_def tab_def newline_def hyphen_def meishi_def
        doushi_def hashiru_def neko_def)

lemma ex_line_neko_fields:
  "split_on tab ex_line_neko =
     [neko, asc ''neko'', asc ''neko'', neko,
      meishi @ [hyphen, 0x666E, 0x901A, 0x540D, 0x8A5E, hyphen, 0x4E00, 0x822C],
      [], [], asc ''1'']"
  by (simp add: ex_line_neko_def asc_def tab_def hyphen_def meishi_def neko_def)

lemma ex_line_ga_fields:
  "split_on tab ex_line_ga =
     [[0x304C], asc ''ga'', asc ''ga'', [0x304C],
      [0x52A9, 0x8A5E, hyphen, 0x683C, 0x52A9, 0x8A5E], [], [], []]"
  by (simp add: ex_line_ga_def asc_def tab_def hyphen_def)

lemma ex_line_short_fields: "split_on tab ex_line_short = [hashiru, doushi]"
  by (simp add: ex_line_short_def tab_def hashiru_def doushi_def)

lemma ex_line_hashiru_fields:
  "split_on tab ex_line_hashiru =
     [hashiru, asc ''hashiru'', asc ''hashiru'', hashiru, doushi @ [hyphen, 0x4E00, 0x822C],
      asc ''godan'', asc ''shuushi'', asc ''2'']"
  by (simp add: ex_line_hashiru_def asc_def tab_def hyphen_def hashiru_def doushi_def)

lemma ex_line_blank_fields:
  "split_on tab ex_line_blank = [[space], asc ''x'', asc ''x'', [space], meishi]"
  by (simp add: ex_line_blank_def asc_def tab_def space_def meishi_def)

lemma ex_pos_neko:
  "pos_of (meishi @ [hyphen, 0x666E, 0x901A, 0x540D, 0x8A5E, hyphen, 0x4E00, 0x822C]) = meishi"
  by (simp add: pos_of_def meishi_def hyphen_def)

lemma ex_pos_ga:
  "pos_of [0x52A9, 0x8A5E, hyphen, 0x683C, 0x52A9, 0x8A5E] = [0x52A9, 0x8A5E]"
  by (simp add: pos_of_def hyphen_def)

lemma ex_pos_hashiru: "pos_of (doushi @ [hyphen, 0x4E00, 0x822C]) = doushi"
  by (simp add: pos_of_def doushi_def hyphen_def)

lemma ex_pos_blank: "pos_of meishi = meishi"
  by (simp add: pos_of_def meishi_def hyphen_def)

lemma analyze_line_neko: "analyze_line rw ex_line_neko = rw @ [neko]"
proof -
  have "ex_line_neko \<noteq> EOS" "ex_line_neko \<noteq> []"
    by (simp_all add: ex_line_neko_def EOS_def asc_def neko_def)
  then show ?thesis
    unfolding analyze_line_def ex_line_neko_fields
    by (simp add: ex_pos_neko)
qed

lemma analyze_line_ga: "analyze_line rw ex_line_ga = rw"
proof -
  have "ex_line_ga \<noteq> EOS" "ex_line_ga \<noteq> []"
    by (simp_all add: ex_line_ga_def EOS_def asc_def)
  then show ?thesis
    unfolding analyze_line_def ex_line_ga_fields
    by (simp add: ex_pos_ga meishi_def doushi_def keiyoushi_def)
qed

lemma analyze_line_hashiru: "analyze_line rw ex_line_hashiru = rw @ [hashiru]"
proof -
  have "ex_line_hashiru \<noteq> EOS" "ex_line_hashiru \<noteq> []"
    by (simp_all add: ex_line_hashiru_def EOS_def asc_def hashiru_def)
  then show ?thesis
    unfolding analyze_line_def ex_line_hashiru_fields
    by (simp add: ex_pos_hashiru)
qed

lemma analyze_line_blank: "analyze_line rw ex_line_blank = rw @ [[space]]"
proof -
  have "ex_line_blank \<noteq> EOS" "ex_line_blank \<noteq> []"
    by (simp_all add: ex_line_blank_def EOS_def asc_def space_def)
  then show ?thesis
    unfolding analyze_line_def ex_line_blank_fields
    by (simp add: ex_pos_blank)
qed

lemma analyze_line_end: "analyze_line rw EOS = rw" "analyze_line rw [] = rw"
  by (simp_all add: analyze_line_def)

lemma analyze_ex:
  "analyze_strings ex_tparse (JArr [JStr neko_ga_hashiru]) = Inr [neko, hashiru]"
  by (simp add: analyze_strings_def ex_tparse_def ex_parsed_lines analyze_line_neko
        analyze_line_ga analyze_line_short ex_line_short_fields analyze_line_hashiru
        analyze_line_end)

lemma analyze_ex_other:
  "analyze_strings ex_tparse (JArr [JStr (asc ''a'')]) = Inr []"
proof -
  have "ex_tparse (JStr (asc ''a'')) = Inr (EOS @ [newline])"
    by (simp add: ex_tparse_def asc_def neko_ga_hashiru_def)
  moreover have "split_on newline (EOS @ [newline]) = [EOS, []]"
    by (simp add: EOS_def asc_def newline_def)
  ultimately show ?thesis
    by (simp add: analyze_strings_def analyze_line_end)
qed

lemma analyze_ex_blank: "analyze_strings ex_tparse_blank (JArr [x]) = Inr [[space]]"
proof -
  have "split_on newline (ex_line_blank @ [newline] @ EOS @ [newline]) = [ex_line_blank, EOS, []]"
    by (simp add: ex_line_blank_def EOS_def asc_def newline_def tab_def space_def meishi_def)
  then show ?thesis
    by (simp add: analyze_strings_def ex_tparse_blank_def analyze_line_blank analyze_line_end)
qed

section \<open>Properties of \<open>analyze_strings\<close>\<close>

text \<open>
  C1. Let the analyzer return \<open>outputs\<close> on the texts of the input list. Then the result
  of \<open>analyze_strings\<close> is, text by text and line by line in order, field 0 of exactly
  those lines that are not the end marker \<open>EOS\<close>, are not empty, have at least 5
  tab-separated fields and whose field 4 has as first hyphen-delimited segment one of the
  three labels noun, verb, adjective.
\<close>

theorem analyze_strings_retains_iff:
  assumes "list_all2 (\<lambda>text parsed. tp text = Inr parsed) texts outputs"
  shows "analyze_strings tp (JArr texts) =
           Inr (concat (map (\<lambda>parsed.
                  map (\<lambda>line. split_on tab line ! 0)
                    (filter (\<lambda>line. line \<noteq> EOS \<and> line \<noteq> [] \<and>
                               5 \<le> length (split_on tab line) \<and>
                               split_on hyphen (split_on tab line ! 4) ! 0
                                 \<in> {meishi, doushi, keiyoushi})
                       (split_on newline parsed)))
                outputs))"
proof -
  have "analyze_strings tp (JArr texts) =
          Inr (concat (map (\<lambda>parsed. analyze_lines [] (split_on newline parsed)) outputs))"
    using analyze_texts_outputs[OF assms, of "[]"] by (simp add: analyze_strings_def)
  then show ?thesis
    by (simp add: analyze_lines_eq)
qed

theorem analyze_strings_retains_iff_witness:
  "list_all2 (\<lambda>text parsed. ex_tparse text = Inr parsed) [JStr neko_ga_hashiru] [ex_parsed] \<and>
   analyze_strings ex_tparse (JArr [JStr neko_ga_hashiru]) =
     Inr (concat (map (\<lambda>parsed.
            map (\<lambda>line. split_on tab line ! 0)
              (filter (\<lambda>line. line \<noteq> EOS \<and> line \<noteq> [] \<and>
                         5 \<le> length (split_on tab line) \<and>
                         split_on hyphen (split_on tab line ! 4) ! 0
                           \<in> {meishi, doushi, keiyoushi})
                 (split_on newline parsed)))
          [ex_parsed])) \<and>
   analyze_strings ex_tparse (JArr [JStr neko_ga_hashiru]) = Inr [neko, hashiru]"
proof -
  have h: "list_all2 (\<lambda>text parsed. ex_tparse text = Inr parsed) [JStr neko_ga_hashiru] [ex_parsed]"
    by (simp add: ex_tparse_def)
  show ?thesis
    using h analyze_strings_retains_iff[OF h] analyze_ex by blast
qed

text \<open>
  C4. Let the analyzer return \<open>outputs\<close> on the texts of the input list. Then the result
  of \<open>analyze_strings\<close> is what the loop over the lines computes once every line with
  fewer than 5 tab-separated fields has been removed from the analyzer's output: no word
  of the result comes from such a line.
\<close>

theorem analyze_strings_excludes_short_lines:
  assumes "list_all2 (\<lambda>text parsed. tp text = Inr parsed) texts outputs"
  shows "analyze_strings tp (JArr texts) =
           Inr (concat (map (\<lambda>parsed.
                  analyze_lines []
                    (filter (\<lambda>line. \<not> length (split_on tab line) < 5)
                       (split_on newline parsed)))
                outputs))"
  using analyze_texts_outputs[OF assms, of "[]"]
  by (simp add: analyze_strings_def analyze_lines_drop_short)

theorem analyze_strings_excludes_short_lines_witness:
  "list_all2 (\<lambda>text parsed. ex_tparse text = Inr parsed) [JStr neko_ga_hashiru] [ex_parsed] \<and>
   ex_line_short \<in> set (split_on newline ex_parsed) \<and>
   length (split_on tab ex_line_short) < 5 \<and>
   analyze_strings ex_tparse (JArr [JStr neko_ga_hashiru]) =
     Inr (analyze_lines [] [ex_line_neko, ex_line_ga, ex_line_hashiru])"
proof -
  have h: "list_all2 (\<lambda>text parsed. ex_tparse text = Inr parsed) [JStr neko_ga_hashiru] [ex_parsed]"
    by (simp add: ex_tparse_def)
  have keep:
    "filter (\<lambda>line. \<not> length (split_on tab line) < 5) (split_on newline ex_parsed) =
       [ex_line_neko, ex_line_ga, ex_line_hashiru]"
    by (simp add: ex_parsed_lines ex_line_neko_fields ex_line_ga_fields ex_line_short_fields
          ex_line_hashiru_fields split_on_tab_EOS)
  have res: "analyze_strings ex_tparse (JArr [JStr neko_ga_hashiru]) =
               Inr (analyze_lines [] [ex_line_neko, ex_line_ga, ex_line_hashiru])"
    using analyze_strings_excludes_short_lines[OF h]
    unfolding list.map concat.simps keep by simp
  have short: "ex_line_short \<in> set (split_on newline ex_parsed)"
      "length (split_on tab ex_line_short) < 5"
    by (simp_all add: ex_parsed_lines ex_line_short_fields)
  show ?thesis
    using h res short by blast
qed

text \<open>
  C5. \<open>analyze_strings\<close> distributes over the concatenation of input lists: the words of
  \<open>xs @ ys\<close> are the words of \<open>xs\<close> followed by the words of \<open>ys\<close>, for any fixed analyzer.
  Where the analyzer raises on a text, both sides raise the same, first, exception.
\<close>

theorem analyze_strings_append:
  "analyze_strings tp (JArr (xs @ ys)) =
     (case analyze_strings tp (JArr xs) of
        Inl e \<Rightarrow> Inl e
      | Inr a \<Rightarrow>
          (case analyze_strings tp (JArr ys) of
             Inl e \<Rightarrow> Inl e
           | Inr b \<Rightarrow> Inr (a @ b)))"
proof (cases "analyze_texts tp [] xs")
  case (Inl e)
  then show ?thesis
    by (simp add: analyze_strings_def analyze_texts_append)
next
  case (Inr a)
  have "analyze_texts tp [] (xs @ ys) = analyze_texts tp a ys"
    by (simp add: analyze_texts_append Inr)
  also have "\<dots> = (case analyze_texts tp [] ys of Inl e \<Rightarrow> Inl e | Inr b \<Rightarrow> Inr (a @ b))"
    by (rule analyze_texts_acc)
  finally show ?thesis
    by (simp add: analyze_strings_def Inr)
qed

text \<open>
  C6. On the input list holding the one text \<open>neko_ga_hashiru\<close>, if the analyzer's output
  has a line with at least 5 tab-separated fields, field 0 \<open>hashiru\<close> and a field 4 whose
  first hyphen-delimited segment is the verb label, then \<open>analyze_strings\<close> returns a
  list and \<open>hashiru\<close> is in it.
\<close>

theorem analyze_strings_example:
  assumes "tp (JStr neko_ga_hashiru) = Inr parsed"
    and "line \<in> set (split_on newline parsed)"
    and "5 \<le> length (split_on tab line)"
    and "split_on tab line ! 0 = hashiru"
    and "split_on hyphen (split_on tab line ! 4) ! 0 = doushi"
  shows "\<exists>words. analyze_strings tp (JArr [JStr neko_ga_hashiru]) = Inr words \<and>
                  hashiru \<in> set words"
proof -
  have ne: "line \<noteq> EOS" "line \<noteq> []"
    using assms(3) split_on_tab_EOS by auto
  have "analyze_strings tp (JArr [JStr neko_ga_hashiru]) =
          Inr (analyze_lines [] (split_on newline parsed))"
    by (simp add: analyze_strings_def assms(1))
  moreover have "hashiru \<in> set (analyze_lines [] (split_on newline parsed))"
    unfolding analyze_lines_eq using assms(2-5) ne by force
  ultimately show ?thesis by blast
qed

theorem analyze_strings_example_witness:
  "ex_tparse (JStr neko_ga_hashiru) = Inr ex_parsed \<and>
   ex_line_hashiru \<in> set (split_on newline ex_parsed) \<and>
   5 \<le> length (split_on tab ex_line_hashiru) \<and>
   split_on tab ex_line_hashiru ! 0 = hashiru \<and>
   split_on hyphen (split_on tab ex_line_hashiru ! 4) ! 0 = doushi \<and>
   (\<exists>words. analyze_strings ex_tparse (JArr [JStr neko_ga_hashiru]) = Inr words \<and>
            hashiru \<in> set words)"
proof -
  have 1: "ex_tparse (JStr neko_ga_hashiru) = Inr ex_parsed"
    by (simp add: ex_tparse_def)
  have 2: "ex_line_hashiru \<in> set (split_on newline ex_parsed)"
    by (simp add: ex_parsed_lines)
  have 3: "5 \<le> length (split_on tab ex_line_hashiru)"
    by (simp add: ex_line_hashiru_fields)
  have 4: "split_on tab ex_line_hashiru ! 0 = hashiru"
    by (simp add: ex_line_hashiru_fields)
  have 5: "split_on hyphen (split_on tab ex_line_hashiru ! 4) ! 0 = doushi"
    by (simp add: ex_line_hashiru_fields doushi_def hyphen_def)
  show ?thesis
    using 1 2 3 4 5
      analyze_strings_example[of ex_tparse ex_parsed ex_line_hashiru, OF 1 2 3 4 5]
    by blast
qed

text \<open>
  C8. The part of speech the source extracts, the first hyphen-delimited segment when
  the descriptor contains a hyphen and the descriptor itself otherwise, is for every
  string the first element of the string split on hyphens.
\<close>

theorem pos_of_unconditional: "pos_of s = split_on hyphen s ! 0"
  by (rule pos_of_first_segment)

section \<open>Properties of \<open>fetch_texts\<close> and \<open>generate_wordcloud\<close>\<close>

text \<open>
  C2. For every URL, when the HTTP GET returns a response whose status code is not 200,
  \<open>fetch_texts\<close> prints the failure message with the URL and returns the empty list.
\<close>

theorem fetch_texts_non_200:
  assumes "requests_get env url = Inr response"
    and "status_code response \<noteq> 200"
  shows "fetch_texts env url w =
           (w\<lparr>stdout := stdout w @ [asc ''Failed to fetch data from '' @ url]\<rparr>,
            Inr (JArr []))"
  using assms by (simp add: fetch_texts_def)

theorem fetch_texts_non_200_witness:
  "requests_get ex_env_404 main_url =
     Inr \<lparr>status_code = 404, json_result = Inl (OtherError [])\<rparr> \<and>
   status_code \<lparr>status_code = 404, json_result = Inl (OtherError [])\<rparr> \<noteq> 200 \<and>
   fetch_texts ex_env_404 main_url ex_world =
     (ex_world\<lparr>stdout := stdout ex_world @ [asc ''Failed to fetch data from '' @ main_url]\<rparr>,
      Inr (JArr []))"
proof -
  have 1: "requests_get ex_env_404 main_url =
             Inr \<lparr>status_code = 404, json_result = Inl (OtherError [])\<rparr>"
    by (simp add: ex_env_404_def)
  have 2: "status_code \<lparr>status_code = 404, json_result = Inl (OtherError [])\<rparr> \<noteq> 200"
    by simp
  show ?thesis
    using 1 2 fetch_texts_non_200[OF 1 2, of ex_world] by blast
qed

text \<open>
  C3. When \<open>analyze_strings\<close> returns the empty word list, \<open>generate_wordcloud\<close> prints
  the message and returns: the renderer is not called and no file is written, every
  path of the file system holding what it held.
\<close>

theorem generate_wordcloud_no_words:
  assumes "analyze_strings (tparse env) strings = Inr []"
  shows "generate_wordcloud env strings output_path w =
           (w\<lparr>stdout := stdout w @ [no_words_msg]\<rparr>, Inr ()) \<and>
         renders (fst (generate_wordcloud env strings output_path w)) = renders w \<and>
         files (fst (generate_wordcloud env strings output_path w)) = files w"
  using generate_wordcloud_skip[OF assms, of output_path w]
  by (simp add: strip_def)

theorem generate_wordcloud_no_words_witness:
  "analyze_strings (tparse ex_env) (JArr [JStr (asc ''a'')]) = Inr [] \<and>
   generate_wordcloud ex_env (JArr [JStr (asc ''a'')]) (asc ''wordcloud.png'') ex_world =
     (ex_world\<lparr>stdout := stdout ex_world @ [no_words_msg]\<rparr>, Inr ()) \<and>
   renders (fst (generate_wordcloud ex_env (JArr [JStr (asc ''a'')]) (asc ''wordcloud.png'')
     ex_world)) = renders ex_world \<and>
   files (fst (generate_wordcloud ex_env (JArr [JStr (asc ''a'')]) (asc ''wordcloud.png'')
     ex_world)) = files ex_world"
proof -
  have h: "analyze_strings (tparse ex_env) (JArr [JStr (asc ''a'')]) = Inr []"
    using analyze_ex_other by (simp add: ex_env_def)
  show ?thesis
    using h generate_wordcloud_no_words[OF h, of "asc ''wordcloud.png''" ex_world] by blast
qed

text \<open>
  C7, as amended. When the filtered words joined with single spaces give a text that is
  not empty and not whitespace only, \<open>generate_wordcloud\<close> calls the renderer once, with
  exactly that text and with the configuration of width 1920, height 1080 and at most
  100 words. (For a word list that is merely non-empty the renderer may not be called at
  all: see the counterexample.)
\<close>

theorem generate_wordcloud_renders:
  assumes "analyze_strings (tparse env) strings = Inr words"
    and "strip (join [space] words) \<noteq> []"
  shows "renders (fst (generate_wordcloud env strings output_path w)) =
           renders w @ [(wordcloud_config, join [space] words)] \<and>
         width wordcloud_config = 1920 \<and> height wordcloud_config = 1080 \<and>
         max_words wordcloud_config = 100"
  using assms
  by (simp add: generate_wordcloud_def wordcloud_config_def Let_def
        split: sum.splits option.splits)

theorem generate_wordcloud_renders_witness:
  "analyze_strings (tparse ex_env) (JArr [JStr neko_ga_hashiru]) = Inr [neko, hashiru] \<and>
   strip (join [space] [neko, hashiru]) \<noteq> [] \<and>
   renders (fst (generate_wordcloud ex_env (JArr [JStr neko_ga_hashiru])
     (asc ''wordcloud.png'') ex_world)) =
     renders ex_world @ [(wordcloud_config, join [space] [neko, hashiru])] \<and>
   width wordcloud_config = 1920 \<and> height wordcloud_config = 1080 \<and>
   max_words wordcloud_config = 100"
proof -
  have 1: "analyze_strings (tparse ex_env) (JArr [JStr neko_ga_hashiru]) = Inr [neko, hashiru]"
    using analyze_ex by (simp add: ex_env_def)
  have 2: "strip (join [space] [neko, hashiru]) \<noteq> []"
    by (simp add: strip_empty_iff neko_def is_space_def)
  show ?thesis
    using 1 2 generate_wordcloud_renders[OF 1 2, of "asc ''wordcloud.png''" ex_world]
    by blast
qed

text \<open>
  The claim C7 as first stated, for every non-empty filtered word list, fails: the
  analyzer \<open>ex_tparse_blank\<close> gives the non-empty word list of the one word made of a
  space, and \<open>generate_wordcloud\<close> returns without any call to the renderer.
\<close>

theorem generate_wordcloud_renders_counterexample:
  "analyze_strings (tparse ex_env_blank) (JArr [JStr neko_ga_hashiru]) = Inr [[space]] \<and>
   [[space]] \<noteq> ([] :: ustr list) \<and>
   renders (fst (generate_wordcloud ex_env_blank (JArr [JStr neko_ga_hashiru])
     (asc ''wordcloud.png'') ex_world)) = [] \<and>
   renders (fst (generate_wordcloud ex_env_blank (JArr [JStr neko_ga_hashiru])
     (asc ''wordcloud.png'') ex_world)) \<noteq> [(wordcloud_config, join [space] [[space]])]"
proof -
  have 1: "analyze_strings (tparse ex_env_blank) (JArr [JStr neko_ga_hashiru]) = Inr [[space]]"
    using analyze_ex_blank by (simp add: ex_env_blank_def)
  have 2: "strip (join [space] [[space]]) = []"
    by (simp add: strip_empty_iff is_space_def space_def)
  have "generate_wordcloud ex_env_blank (JArr [JStr neko_ga_hashiru]) (asc ''wordcloud.png'')
          ex_world = (ex_world\<lparr>stdout := stdout ex_world @ [no_words_msg]\<rparr>, Inr ())"
    by (rule generate_wordcloud_skip[OF 1 2])
  then have "renders (fst (generate_wordcloud ex_env_blank (JArr [JStr neko_ga_hashiru])
               (asc ''wordcloud.png'') ex_world)) = []"
    by (simp add: ex_world_def)
  with 1 show ?thesis by simp
qed

text \<open>
  C9. On a 200 response whose body parses, \<open>fetch_texts\<close> returns the parsed value as it
  is, whatever its shape, and prints nothing; the script hands that value to
  \<open>generate_wordcloud\<close>. There is such a response whose value is not a list of strings
  (a JSON object) and which is returned and handed on all the same.
\<close>

theorem fetch_texts_no_shape_check:
  "(requests_get env url = Inr response \<longrightarrow> status_code response = 200 \<longrightarrow>
      json_result response = Inr v \<longrightarrow>
      fetch_texts env url w = (w, Inr v) \<and>
      (url = main_url \<longrightarrow>
         main env w = generate_wordcloud env v (asc ''wordcloud.png'') w)) \<and>
   (\<exists>(env' :: ustr env) response' v'.
      requests_get env' main_url = Inr response' \<and> status_code response' = 200 \<and>
      json_result response' = Inr v' \<and> \<not> is_str_list v' \<and>
      (\<forall>w'. fetch_texts env' main_url w' = (w', Inr v') \<and>
            main env' w' = generate_wordcloud env' v' (asc ''wordcloud.png'') w'))"
proof (rule conjI)
  show "requests_get env url = Inr response \<longrightarrow> status_code response = 200 \<longrightarrow>
      json_result response = Inr v \<longrightarrow>
      fetch_texts env url w = (w, Inr v) \<and>
      (url = main_url \<longrightarrow>
         main env w = generate_wordcloud env v (asc ''wordcloud.png'') w)"
  proof (intro impI conjI)
    assume g: "requests_get env url = Inr response" and c: "status_code response = 200"
      and j: "json_result response = Inr v"
    show f: "fetch_texts env url w = (w, Inr v)"
      using fetch_texts_200[OF g c, of w] j by simp
    assume "url = main_url"
    with f show "main env w = generate_wordcloud env v (asc ''wordcloud.png'') w"
      by (simp add: main_def)
  qed
next
  let ?r = "\<lparr>status_code = 200, json_result = Inr ex_obj\<rparr>"
  have g: "requests_get ex_env_obj main_url = Inr ?r"
    by (simp add: ex_env_obj_def)
  have f: "fetch_texts ex_env_obj main_url w' = (w', Inr ex_obj)" for w'
    using fetch_texts_200[OF g, of w'] by simp
  have m: "main ex_env_obj w' = generate_wordcloud ex_env_obj ex_obj (asc ''wordcloud.png'') w'"
    for w'
    by (simp add: main_def f)
  have n: "\<not> is_str_list ex_obj"
    by (simp add: ex_obj_def)
  have "requests_get ex_env_obj main_url = Inr ?r \<and> status_code ?r = 200 \<and>
      json_result ?r = Inr ex_obj \<and> \<not> is_str_list ex_obj \<and>
      (\<forall>w'. fetch_texts ex_env_obj main_url w' = (w', Inr ex_obj) \<and>
            main ex_env_obj w' = generate_wordcloud ex_env_obj ex_obj (asc ''wordcloud.png'') w')"
    using g f m n by simp
  then show "\<exists>(env' :: ustr env) response' v'.
      requests_get env' main_url = Inr response' \<and> status_code response' = 200 \<and>
      json_result response' = Inr v' \<and> \<not> is_str_list v' \<and>
      (\<forall>w'. fetch_texts env' main_url w' = (w', Inr v') \<and>
            main env' w' = generate_wordcloud env' v' (asc ''wordcloud.png'') w')"
    by blast
qed

theorem fetch_texts_no_shape_check_witness:
  "requests_get ex_env_obj main_url = Inr \<lparr>status_code = 200, json_result = Inr ex_obj\<rparr> \<and>
   \<not> is_str_list ex_obj \<and>
   fetch_texts ex_env_obj main_url ex_world = (ex_world, Inr ex_obj) \<and>
   main ex_env_obj ex_world =
     generate_wordcloud ex_env_obj ex_obj (asc ''wordcloud.png'') ex_world"
proof -
  have g: "requests_get ex_env_obj main_url =
             Inr \<lparr>status_code = 200, json_result = Inr ex_obj\<rparr>"
    by (simp add: ex_env_obj_def)
  have n: "\<not> is_str_list ex_obj"
    by (simp add: ex_obj_def)
  show ?thesis
    using g n
      fetch_texts_no_shape_check[of ex_env_obj main_url
        "\<lparr>status_code = 200, json_result = Inr ex_obj\<rparr>" ex_obj ex_world]
    by simp
qed

text \<open>
  C10. Whenever every character of the space-joined word text is whitespace (the text
  is empty or whitespace only), \<open>generate_wordcloud\<close> prints the message and returns,
  with no call to the renderer and no file written. This covers more than the empty
  word list: there is a non-empty filtered word list, every word of it whitespace, on
  which \<open>generate_wordcloud\<close> does so for every path and state.
\<close>

theorem generate_wordcloud_skips_blank_text:
  "(analyze_strings (tparse env) strings = Inr words \<longrightarrow>
      (\<forall>c\<in>set (join [space] words). is_space c) \<longrightarrow>
      generate_wordcloud env strings output_path w =
        (w\<lparr>stdout := stdout w @ [no_words_msg]\<rparr>, Inr ())) \<and>
   (\<exists>(env' :: ustr env) strings' words'.
      analyze_strings (tparse env') strings' = Inr words' \<and> words' \<noteq> [] \<and>
      (\<forall>word\<in>set words'. \<forall>c\<in>set word. is_space c) \<and>
      (\<forall>path w'. generate_wordcloud env' strings' path w' =
         (w'\<lparr>stdout := stdout w' @ [no_words_msg]\<rparr>, Inr ())))"
proof (rule conjI)
  show "analyze_strings (tparse env) strings = Inr words \<longrightarrow>
      (\<forall>c\<in>set (join [space] words). is_space c) \<longrightarrow>
      generate_wordcloud env strings output_path w =
        (w\<lparr>stdout := stdout w @ [no_words_msg]\<rparr>, Inr ())"
    using generate_wordcloud_skip[of env strings words output_path w]
    by (simp add: strip_empty_iff)
next
  have 1: "analyze_strings (tparse ex_env_blank) (JArr [JStr neko_ga_hashiru]) = Inr [[space]]"
    using analyze_ex_blank by (simp add: ex_env_blank_def)
  have 2: "strip (join [space] [[space]]) = []"
    by (simp add: strip_empty_iff is_space_def space_def)
  have 3: "\<forall>word\<in>set [[space]]. \<forall>c\<in>set word. is_space c"
    by (simp add: is_space_def space_def)
  have 4: "\<forall>path w'. generate_wordcloud ex_env_blank (JArr [JStr neko_ga_hashiru]) path w' =
         (w'\<lparr>stdout := stdout w' @ [no_words_msg]\<rparr>, Inr ())"
    using generate_wordcloud_skip[OF 1 2] by blast
  have "analyze_strings (tparse ex_env_blank) (JArr [JStr neko_ga_hashiru]) = Inr [[space]] \<and>
      [[space]] \<noteq> ([] :: ustr list) \<and>
      (\<forall>word\<in>set [[space]]. \<forall>c\<in>set word. is_space c) \<and>
      (\<forall>path w'. generate_wordcloud ex_env_blank (JArr [JStr neko_ga_hashiru]) path w' =
         (w'\<lparr>stdout := stdout w' @ [no_words_msg]\<rparr>, Inr ()))"
    using 1 3 4 by simp
  then show "\<exists>(env' :: ustr env) strings' words'.
      analyze_strings (tparse env') strings' = Inr words' \<and> words' \<noteq> [] \<and>
      (\<forall>word\<in>set words'. \<forall>c\<in>set word. is_space c) \<and>
      (\<forall>path w'. generate_wordcloud env' strings' path w' =
         (w'\<lparr>stdout := stdout w' @ [no_words_msg]\<rparr>, Inr ()))"
    by blast
qed

theorem generate_wordcloud_skips_blank_text_witness:
  "analyze_strings (tparse ex_env_blank) (JArr [JStr neko_ga_hashiru]) = Inr [[space]] \<and>
   [[space]] \<noteq> ([] :: ustr list) \<and>
   list_all is_space (join [space] [[space]]) \<and>
   generate_wordcloud ex_env_blank (JArr [JStr neko_ga_hashiru]) (asc ''wordcloud.png'')
     ex_world = (ex_world\<lparr>stdout := stdout ex_world @ [no_words_msg]\<rparr>, Inr ())"
proof -
  have 1: "analyze_strings (tparse ex_env_blank) (JArr [JStr neko_ga_hashiru]) = Inr [[space]]"
    using analyze_ex_blank by (simp add: ex_env_blank_def)
  have 2: "\<forall>c\<in>set (join [space] [[space]]). is_space c"
    by (simp add: is_space_def space_def)
  have 3: "list_all is_space (join [space] [[space]])"
    by (simp add: is_space_def space_def)
  show ?thesis
    using 1 2 3
      generate_wordcloud_skips_blank_text[of ex_env_blank "JArr [JStr neko_ga_hashiru]"
        "[[space]]" "asc ''wordcloud.png''" ex_world]
    by blast
qed

end
